theory Spec2Isabelle
  imports Main
begin

section \<open>Python values at the tool boundary\<close>

text \<open>
  Tool arguments arrive as a Python dict from keyword names to JSON scalars. The scalars
  are modelled by \<open>pyval\<close>; nested lists and dicts are left out. Python floats are IEEE
  doubles, which HOL does not provide: the float type is the parameter \<open>'f\<close>, and what
  the code does with floats (the constructor \<open>float(v)\<close>, the four operators, the test
  \<open>y != 0\<close> and \<open>str\<close>) is the record \<open>float_ops\<close>, passed to every definition that
  touches a float.
\<close>

datatype 'f pyval = PNone | PBool bool | PInt int | PFloat 'f | PStr string

record 'f float_ops =
  py_float :: "'f pyval \<Rightarrow> string + 'f"
  f_add :: "'f \<Rightarrow> 'f \<Rightarrow> 'f"
  f_sub :: "'f \<Rightarrow> 'f \<Rightarrow> 'f"
  f_mul :: "'f \<Rightarrow> 'f \<Rightarrow> 'f"
  f_truediv :: "'f \<Rightarrow> 'f \<Rightarrow> 'f"
  f_is_zero :: "'f \<Rightarrow> bool"
  f_str :: "'f \<Rightarrow> string"

text \<open>
  \<open>py_float ops v\<close> is \<open>float(v)\<close>: \<open>Inr x\<close> when the conversion returns \<open>x\<close>,
  \<open>Inl msg\<close> when it raises (ValueError for a string that is no number, TypeError for
  None), \<open>msg\<close> being \<open>str\<close> of the exception.
\<close>

type_synonym 'f kwargs = "(string \<times> 'f pyval) list"

text \<open>An exception of class Exception is represented by its message, \<open>str(e)\<close>.\<close>

type_synonym 'a raises = "string + 'a"

fun str_nat :: "nat \<Rightarrow> string" where
  "str_nat n =
     (if n < 10 then [''0123456789'' ! n]
      else str_nat (n div 10) @ [''0123456789'' ! (n mod 10)])"

declare str_nat.simps [simp del]

definition str_int :: "int \<Rightarrow> string" where
  "str_int i = (if i < 0 then CHR ''-'' # str_nat (nat (- i)) else str_nat (nat i))"

text \<open>\<open>str(v)\<close>, which is also what an f-string writes for \<open>{v}\<close>.\<close>

fun py_str :: "'f float_ops \<Rightarrow> 'f pyval \<Rightarrow> string" where
  "py_str ops PNone = ''None''"
| "py_str ops (PBool b) = (if b then ''True'' else ''False'')"
| "py_str ops (PInt i) = str_int i"
| "py_str ops (PFloat x) = f_str ops x"
| "py_str ops (PStr s) = s"

text \<open>\<open>type(v).__name__\<close>, as error messages quote it.\<close>

fun type_name :: "'f pyval \<Rightarrow> string" where
  "type_name PNone = ''NoneType''"
| "type_name (PBool b) = ''bool''"
| "type_name (PInt i) = ''int''"
| "type_name (PFloat x) = ''float''"
| "type_name (PStr s) = ''str''"

subsection \<open>Binding keyword arguments: \<open>handler(**arguments)\<close>\<close>

text \<open>
  A call \<open>f(**kwargs)\<close> of a function without a \<open>**\<close> parameter raises TypeError for
  the first key that names no parameter, and otherwise for the parameters without a
  default that no key supplies. The messages are CPython's.
\<close>

definition quoted :: "string \<Rightarrow> string" where
  "quoted s = [CHR 0x27] @ s @ [CHR 0x27]"

definition unexpected_keyword :: "string \<Rightarrow> string list \<Rightarrow> (string \<times> 'v) list \<Rightarrow> string option" where
  "unexpected_keyword fname params kwargs =
     (case filter (\<lambda>k. k \<notin> set params) (map fst kwargs) of
        [] \<Rightarrow> None
      | k # _ \<Rightarrow> Some (fname @ ''() got an unexpected keyword argument '' @ quoted k))"

fun name_list :: "string list \<Rightarrow> string" where
  "name_list [] = []"
| "name_list [a] = quoted a"
| "name_list [a, b] = quoted a @ '' and '' @ quoted b"
| "name_list [a, b, c] = quoted a @ '', '' @ quoted b @ '', and '' @ quoted c"
| "name_list (a # rest) = quoted a @ '', '' @ name_list rest"

definition missing_arguments :: "string \<Rightarrow> string list \<Rightarrow> (string \<times> 'v) list \<Rightarrow> string" where
  "missing_arguments fname required kwargs =
     (let missing = filter (\<lambda>p. p \<notin> set (map fst kwargs)) required in
      fname @ ''() missing '' @ str_nat (length missing) @ '' required positional argument''
        @ (if length missing = 1 then [] else ''s'') @ '': '' @ name_list missing)"

section \<open>The protocol server: \<open>SimpleMCPServer\<close>\<close>

record resource =
  uri :: string
  res_name :: string
  mimeType :: string
  res_description :: string
  content :: string

record input_schema =
  schema_type :: string
  properties :: "(string \<times> string) list"

record 'f tool =
  tool_name :: string
  tool_description :: string
  handler :: "'f kwargs \<Rightarrow> 'f pyval raises"
  inputSchema :: input_schema

record 'f server =
  name :: string
  version :: string
  resources :: "resource list"
  tools :: "'f tool list"

definition SimpleMCPServer :: "string \<Rightarrow> 'f server" where
  "SimpleMCPServer nm = \<lparr>name = nm, version = ''1.0.0'', resources = [], tools = []\<rparr>"

definition register_resource :: "'f server \<Rightarrow> string \<Rightarrow> string \<Rightarrow> string \<Rightarrow> string \<Rightarrow> 'f server" where
  "register_resource self u nm mime_type cont =
     self\<lparr>resources := resources self @
       [\<lparr>uri = u, res_name = nm, mimeType = mime_type,
         res_description = ''Resource: '' @ nm, content = cont\<rparr>]\<rparr>"

definition register_tool :: "'f server \<Rightarrow> string \<Rightarrow> string \<Rightarrow> ('f kwargs \<Rightarrow> 'f pyval raises) \<Rightarrow> 'f server" where
  "register_tool self nm descr h =
     self\<lparr>tools := tools self @
       [\<lparr>tool_name = nm, tool_description = descr, handler = h,
         inputSchema = \<lparr>schema_type = ''object'', properties = []\<rparr>\<rparr>]\<rparr>"

text \<open>
  \<open>read_resource\<close> returns \<open>{"contents": [{"uri", "mimeType", "text"}]}\<close> for the first
  resource whose uri matches, and \<open>{"error": "Resource not found"}\<close> when the loop ends.
\<close>

datatype read_result = ResourceContents string string string | ResourceError string

fun read_resource_loop :: "resource list \<Rightarrow> string \<Rightarrow> read_result" where
  "read_resource_loop [] u = ResourceError ''Resource not found''"
| "read_resource_loop (r # rest) u =
     (if uri r = u then ResourceContents (uri r) (mimeType r) (content r)
      else read_resource_loop rest u)"

definition read_resource :: "'f server \<Rightarrow> string \<Rightarrow> read_result" where
  "read_resource self u = read_resource_loop (resources self) u"

definition list_resources :: "'f server \<Rightarrow> (string \<times> string \<times> string \<times> string) list" where
  "list_resources self =
     map (\<lambda>r. (uri r, res_name r, mimeType r, res_description r)) (resources self)"

definition list_tools :: "'f server \<Rightarrow> (string \<times> string \<times> input_schema) list" where
  "list_tools self = map (\<lambda>t. (tool_name t, tool_description t, inputSchema t)) (tools self)"

text \<open>
  \<open>call_tool\<close> returns \<open>{"content": [{"type": "text", "text": str(result)}]}\<close>, here
  \<open>ToolContent (str result)\<close>, or \<open>{"error": msg}\<close>, here \<open>ToolError msg\<close>. The handler
  of the first tool whose name matches is called inside \<open>try\<close>; \<open>except Exception\<close>
  turns what it raises into the error dict.
\<close>

datatype call_result = ToolContent string | ToolError string

fun call_tool_loop :: "'f float_ops \<Rightarrow> 'f tool list \<Rightarrow> string \<Rightarrow> 'f kwargs \<Rightarrow> call_result" where
  "call_tool_loop ops [] nm arguments = ToolError ''Tool not found''"
| "call_tool_loop ops (t # rest) nm arguments =
     (if tool_name t = nm then
        (case handler t arguments of
           Inr result \<Rightarrow> ToolContent (py_str ops result)
         | Inl e \<Rightarrow> ToolError e)
      else call_tool_loop ops rest nm arguments)"

definition call_tool :: "'f float_ops \<Rightarrow> 'f server \<Rightarrow> string \<Rightarrow> 'f kwargs \<Rightarrow> call_result" where
  "call_tool ops self nm arguments = call_tool_loop ops (tools self) nm arguments"

subsection \<open>The tool implementations\<close>

text \<open>
  The dict \<open>operations\<close> of \<open>calculator_tool\<close>: four lambdas on floats. The division
  lambda returns the string \<open>"Error: Division by zero"\<close> instead of dividing by zero.
\<close>

definition operations :: "'f float_ops \<Rightarrow> (string \<times> ('f \<Rightarrow> 'f \<Rightarrow> 'f pyval)) list" where
  "operations ops =
     [(''add'', \<lambda>x y. PFloat (f_add ops x y)),
      (''subtract'', \<lambda>x y. PFloat (f_sub ops x y)),
      (''multiply'', \<lambda>x y. PFloat (f_mul ops x y)),
      (''divide'', \<lambda>x y. if \<not> f_is_zero ops y then PFloat (f_truediv ops x y)
                          else PStr ''Error: Division by zero'')]"

text \<open>\<open>operations.get(operation)\<close> for a key that may be any scalar: only a string can be a key.\<close>

fun operations_get :: "'f float_ops \<Rightarrow> 'f pyval \<Rightarrow> ('f \<Rightarrow> 'f \<Rightarrow> 'f pyval) option" where
  "operations_get ops (PStr s) = map_of (operations ops) s"
| "operations_get ops _ = None"

definition calculator_tool_body :: "'f float_ops \<Rightarrow> 'f pyval \<Rightarrow> 'f pyval \<Rightarrow> 'f pyval \<Rightarrow> 'f pyval raises" where
  "calculator_tool_body ops operation a b =
     (case operations_get ops operation of
        Some f \<Rightarrow>
          (case py_float ops a of
             Inl e \<Rightarrow> Inl e
           | Inr x \<Rightarrow>
               (case py_float ops b of
                  Inl e \<Rightarrow> Inl e
                | Inr y \<Rightarrow>
                    Inr (PStr (py_str ops operation @ ''('' @ py_str ops a @ '', '' @ py_str ops b
                               @ '') = '' @ py_str ops (f x y)))))
      | None \<Rightarrow> Inr (PStr (''Unknown operation: '' @ py_str ops operation)))"

definition calculator_tool :: "'f float_ops \<Rightarrow> 'f kwargs \<Rightarrow> 'f pyval raises" where
  "calculator_tool ops kwargs =
     (case unexpected_keyword ''calculator_tool'' [''operation'', ''a'', ''b''] kwargs of
        Some e \<Rightarrow> Inl e
      | None \<Rightarrow>
          (case (map_of kwargs ''operation'', map_of kwargs ''a'', map_of kwargs ''b'') of
             (Some operation, Some a, Some b) \<Rightarrow> calculator_tool_body ops operation a b
           | _ \<Rightarrow> Inl (missing_arguments ''calculator_tool'' [''operation'', ''a'', ''b''] kwargs)))"

text \<open>\<open>get_time_tool\<close> reads the clock; \<open>now\<close> is the formatted time it reads.\<close>

definition get_time_tool :: "string \<Rightarrow> 'f kwargs \<Rightarrow> 'f pyval raises" where
  "get_time_tool now kwargs =
     (case unexpected_keyword ''get_time_tool'' [] kwargs of
        Some e \<Rightarrow> Inl e
      | None \<Rightarrow> Inr (PStr (''Current time: '' @ now)))"

definition echo_tool :: "'f float_ops \<Rightarrow> 'f kwargs \<Rightarrow> 'f pyval raises" where
  "echo_tool ops kwargs =
     (case unexpected_keyword ''echo_tool'' [''message''] kwargs of
        Some e \<Rightarrow> Inl e
      | None \<Rightarrow>
          (case map_of kwargs ''message'' of
             Some message \<Rightarrow> Inr (PStr (''Echo: '' @ py_str ops message))
           | None \<Rightarrow> Inl (missing_arguments ''echo_tool'' [''message''] kwargs)))"

text \<open>
  Modelled from the spec: the handler of the scenario "register capability
  \<open>add(a, b) \<rightarrow> a + b\<close>", which the repository does not contain. It is the coroutine
  \<open>async def add(a, b): return a + b\<close>, and \<open>py_add\<close> is Python's \<open>+\<close> on scalars:
  exact on integers (a bool counts as 0 or 1), concatenation on two strings, the float
  sum when one operand is a float and the other a number (the number converted by
  \<open>float\<close>, which raises for an integer too large), and TypeError otherwise.
\<close>

fun as_int :: "'f pyval \<Rightarrow> int option" where
  "as_int (PBool b) = Some (if b then 1 else 0)"
| "as_int (PInt i) = Some i"
| "as_int _ = None"

definition unsupported_operands :: "'f pyval \<Rightarrow> 'f pyval \<Rightarrow> string" where
  "unsupported_operands a b =
     ''unsupported operand type(s) for +: '' @ quoted (type_name a) @ '' and ''
       @ quoted (type_name b)"

fun py_add :: "'f float_ops \<Rightarrow> 'f pyval \<Rightarrow> 'f pyval \<Rightarrow> 'f pyval raises" where
  "py_add ops (PStr s) (PStr t) = Inr (PStr (s @ t))"
| "py_add ops (PStr s) b =
     Inl (''can only concatenate str (not '' @ [CHR 0x22] @ type_name b @ [CHR 0x22] @ '') to str'')"
| "py_add ops (PFloat x) (PFloat y) = Inr (PFloat (f_add ops x y))"
| "py_add ops (PFloat x) b =
     (case as_int b of
        None \<Rightarrow> Inl (unsupported_operands (PFloat x) b)
      | Some j \<Rightarrow>
          (case py_float ops (PInt j) of
             Inl e \<Rightarrow> Inl e
           | Inr y \<Rightarrow> Inr (PFloat (f_add ops x y))))"
| "py_add ops a (PFloat y) =
     (case as_int a of
        None \<Rightarrow> Inl (unsupported_operands a (PFloat y))
      | Some i \<Rightarrow>
          (case py_float ops (PInt i) of
             Inl e \<Rightarrow> Inl e
           | Inr x \<Rightarrow> Inr (PFloat (f_add ops x y))))"
| "py_add ops a b =
     (case (as_int a, as_int b) of
        (Some i, Some j) \<Rightarrow> Inr (PInt (i + j))
      | _ \<Rightarrow> Inl (unsupported_operands a b))"

definition add_tool :: "'f float_ops \<Rightarrow> 'f kwargs \<Rightarrow> 'f pyval raises" where
  "add_tool ops kwargs =
     (case unexpected_keyword ''add'' [''a'', ''b''] kwargs of
        Some e \<Rightarrow> Inl e
      | None \<Rightarrow>
          (case (map_of kwargs ''a'', map_of kwargs ''b'') of
             (Some a, Some b) \<Rightarrow> py_add ops a b
           | _ \<Rightarrow> Inl (missing_arguments ''add'' [''a'', ''b''] kwargs)))"

text \<open>The server that \<open>main\<close> builds: two resources, then three tools.\<close>

definition dq :: "string \<Rightarrow> string" where
  "dq s = [CHR 0x22] @ s @ [CHR 0x22]"

definition main_server :: "'f float_ops \<Rightarrow> string \<Rightarrow> 'f server" where
  "main_server ops now =
     register_tool
       (register_tool
         (register_tool
           (register_resource
             (register_resource (SimpleMCPServer ''demo-mcp-server'')
                ''resource://documentation'' ''API Documentation'' ''text/markdown''
                ''# API Documentation\<newline>\<newline>This is sample documentation.'')
             ''resource://config'' ''Configuration'' ''application/json''
             (''{'' @ dq ''env'' @ '': '' @ dq ''production'' @ '', '' @ dq ''debug'' @ '': false}''))
           ''calculator'' ''Perform basic arithmetic operations'' (calculator_tool ops))
         ''get_time'' ''Get the current time'' (get_time_tool now))
       ''echo'' ''Echo back a message'' (echo_tool ops)"

section \<open>The agent: \<open>run_agent\<close>\<close>

text \<open>
  A tool call of the model carries an id, a function name and the arguments as JSON text.
  \<open>message.tool_calls\<close> is None or a list, and the code only tests its truth: the
  model is a list, empty for None.
\<close>

record tool_call =
  tc_id :: string
  function_name :: string
  function_arguments :: string

record assistant_message =
  msg_content :: "string option"
  tool_calls :: "tool_call list"

text \<open>
  What \<open>json.loads\<close> returns: an object (with scalar values), or any other JSON value,
  of which only the name of its Python type is kept.
\<close>

datatype 'f parsed = JObject "'f kwargs" | JOther string

text \<open>
  What \<open>execute_tool_call\<close> returns: \<open>json.dumps(result)\<close> for the dict a tool
  returned, or \<open>json.dumps({"error": msg})\<close>.
\<close>

datatype 'r tool_output = Dumps 'r | DumpsError string

datatype 'r message =
    SystemMessage string
  | UserMessage string
  | AssistantMessage assistant_message
  | ToolMessage string string "'r tool_output"

text \<open>The lines the agent prints, without their decoration.\<close>

datatype event =
    PrintTask string
  | PrintNoApiKey
  | PrintSkipping
  | PrintIteration int
  | PrintThought
  | PrintCalling string
  | PrintResult string
  | PrintFinalAnswer "string option"
  | PrintError string
  | PrintReachedMax int

text \<open>
  What the agent takes from outside the repository. \<open>check_api_key\<close> is the outcome of
  the environment check. \<open>create ms\<close> is
  \<open>client.chat.completions.create(messages=ms, ...).choices[0].message\<close>: the message,
  or the exception either step raises. \<open>json_loads\<close> is \<open>json.loads\<close> and \<open>str_lower\<close>
  is \<open>str.lower\<close>. \<open>py_module\<close> is the \<open>__name__\<close> under which the file runs
  (\<open>__main__\<close> as a script). The two bodies are \<open>calculator\<close> and \<open>get_weather\<close> after their
  parameters are bound: they use Python's arithmetic on JSON values, \<open>math.sqrt\<close> and
  the clock, and return the result dict or raise.
\<close>

type_synonym 'f pydict = "(string \<times> 'f pyval) list"

record 'f agent_env =
  check_api_key :: bool
  create :: "'f pydict message list \<Rightarrow> assistant_message raises"
  json_loads :: "string \<Rightarrow> 'f parsed raises"
  str_lower :: "string \<Rightarrow> string"
  py_module :: string
  calculator_body :: "'f pyval \<Rightarrow> 'f pyval \<Rightarrow> 'f pyval \<Rightarrow> 'f pydict raises"
  get_weather_body :: "'f pyval \<Rightarrow> 'f pyval \<Rightarrow> 'f pydict raises"

text \<open>\<open>def calculator(operation: str, a: float, b: float)\<close>: three parameters, no default.\<close>

definition calculator :: "'f agent_env \<Rightarrow> 'f kwargs \<Rightarrow> 'f pydict raises" where
  "calculator env kwargs =
     (case unexpected_keyword ''calculator'' [''operation'', ''a'', ''b''] kwargs of
        Some e \<Rightarrow> Inl e
      | None \<Rightarrow>
          (case (map_of kwargs ''operation'', map_of kwargs ''a'', map_of kwargs ''b'') of
             (Some operation, Some a, Some b) \<Rightarrow> calculator_body env operation a b
           | _ \<Rightarrow> Inl (missing_arguments ''calculator'' [''operation'', ''a'', ''b''] kwargs)))"

text \<open>\<open>def get_weather(location: str, unit: str = "celsius")\<close>.\<close>

definition get_weather :: "'f agent_env \<Rightarrow> 'f kwargs \<Rightarrow> 'f pydict raises" where
  "get_weather env kwargs =
     (case unexpected_keyword ''get_weather'' [''location'', ''unit''] kwargs of
        Some e \<Rightarrow> Inl e
      | None \<Rightarrow>
          (case map_of kwargs ''location'' of
             Some location \<Rightarrow>
               get_weather_body env location
                 (case map_of kwargs ''unit'' of Some unit \<Rightarrow> unit | None \<Rightarrow> PStr ''celsius'')
           | None \<Rightarrow> Inl (missing_arguments ''get_weather'' [''location''] kwargs)))"

text \<open>
  \<open>search_knowledge_base\<close>: the first key of \<open>knowledge\<close>, in the order of the dict, that
  occurs in the lowered query decides the answer. A query that is no string has no
  method \<open>lower\<close>.
\<close>

definition knowledge :: "(string \<times> string) list" where
  "knowledge =
     [(''python'', ''Python is a high-level programming language known for readability and versatility.''),
      (''ai'', ''Artificial Intelligence enables machines to learn and make decisions.''),
      (''agent'', ''AI agents are autonomous systems that can perceive, reason, and act.''),
      (''llm'', ''Large Language Models are neural networks trained on vast text data.'')]"

fun starts_with :: "string \<Rightarrow> string \<Rightarrow> bool" where
  "starts_with [] text = True"
| "starts_with (k # ks) [] = False"
| "starts_with (k # ks) (c # cs) = (k = c \<and> starts_with ks cs)"

text \<open>\<open>key in text\<close> for two strings.\<close>

fun occurs_in :: "string \<Rightarrow> string \<Rightarrow> bool" where
  "occurs_in key [] = (key = [])"
| "occurs_in key (c # cs) = (starts_with key (c # cs) \<or> occurs_in key cs)"

fun knowledge_loop :: "(string \<times> string) list \<Rightarrow> string \<Rightarrow> string \<Rightarrow> 'f pydict" where
  "knowledge_loop [] query query_lower =
     [(''found'', PBool False), (''query'', PStr query), (''answer'', PStr ''No information found.'')]"
| "knowledge_loop ((key, value) # rest) query query_lower =
     (if occurs_in key query_lower
      then [(''found'', PBool True), (''query'', PStr query), (''answer'', PStr value)]
      else knowledge_loop rest query query_lower)"

definition search_knowledge_base :: "'f agent_env \<Rightarrow> 'f kwargs \<Rightarrow> 'f pydict raises" where
  "search_knowledge_base env kwargs =
     (case unexpected_keyword ''search_knowledge_base'' [''query''] kwargs of
        Some e \<Rightarrow> Inl e
      | None \<Rightarrow>
          (case map_of kwargs ''query'' of
             Some (PStr query) \<Rightarrow> Inr (knowledge_loop knowledge query (str_lower env query))
           | Some v \<Rightarrow>
               Inl (quoted (type_name v) @ '' object has no attribute '' @ quoted ''lower'')
           | None \<Rightarrow> Inl (missing_arguments ''search_knowledge_base'' [''query''] kwargs)))"

text \<open>
  The schemas the agent advertises to the model in \<open>tools\<close>: per function, its name, the
  declared properties (name, type, enum) and the required names.
\<close>

record function_schema =
  fn_name :: string
  fn_properties :: "(string \<times> string \<times> string list) list"
  fn_required :: "string list"

definition agent_tools :: "function_schema list" where
  "agent_tools =
     [\<lparr>fn_name = ''calculator'',
       fn_properties =
         [(''operation'', ''string'',
             [''add'', ''subtract'', ''multiply'', ''divide'', ''power'', ''sqrt'']),
          (''a'', ''number'', []),
          (''b'', ''number'', [])],
       fn_required = [''operation'', ''a'']\<rparr>,
      \<lparr>fn_name = ''get_weather'',
       fn_properties =
         [(''location'', ''string'', []),
          (''unit'', ''string'', [''celsius'', ''fahrenheit''])],
       fn_required = [''location'']\<rparr>,
      \<lparr>fn_name = ''search_knowledge_base'',
       fn_properties = [(''query'', ''string'', [])],
       fn_required = [''query'']\<rparr>]"

definition TOOL_FUNCTIONS :: "'f agent_env \<Rightarrow> (string \<times> ('f kwargs \<Rightarrow> 'f pydict raises)) list" where
  "TOOL_FUNCTIONS env =
     [(''calculator'', calculator env),
      (''get_weather'', get_weather env),
      (''search_knowledge_base'', search_knowledge_base env)]"

text \<open>
  \<open>f(**function_args)\<close>: what is unpacked must be a mapping. The message of this
  TypeError names the function with its module.
\<close>

definition call_with :: "string \<Rightarrow> ('f kwargs \<Rightarrow> 'r raises) \<Rightarrow> 'f parsed \<Rightarrow> 'r raises" where
  "call_with fname f args =
     (case args of
        JObject kwargs \<Rightarrow> f kwargs
      | JOther ty \<Rightarrow> Inl (fname @ ''() argument after ** must be a mapping, not '' @ ty))"

text \<open>
  \<open>execute_tool_call\<close> has no \<open>try\<close>: what \<open>json.loads\<close> or the tool function raises
  leaves it. The result pairs the lines printed with the value returned or the
  exception.
\<close>

definition execute_tool_call :: "'f agent_env \<Rightarrow> tool_call \<Rightarrow> event list \<times> 'f pydict tool_output raises" where
  "execute_tool_call env tc =
     (case json_loads env (function_arguments tc) of
        Inl e \<Rightarrow> ([], Inl e)
      | Inr function_args \<Rightarrow>
          (case map_of (TOOL_FUNCTIONS env) (function_name tc) of
             Some f \<Rightarrow>
               (case call_with (py_module env @ ''.'' @ function_name tc) f function_args of
                  Inl e \<Rightarrow> ([PrintCalling (function_name tc)], Inl e)
                | Inr result \<Rightarrow>
                    ([PrintCalling (function_name tc), PrintResult (function_name tc)],
                     Inr (Dumps result)))
           | None \<Rightarrow>
               ([PrintCalling (function_name tc)],
                Inr (DumpsError (''Unknown function: '' @ function_name tc)))))"

text \<open>
  The inner loop \<open>for tool_call in message.tool_calls\<close>, on the transcript and the
  printed lines. An exception ends it: the second component is the exception, if any.
\<close>

fun tool_calls_loop :: "'f agent_env \<Rightarrow> tool_call list \<Rightarrow> 'f pydict message list \<times> event list
    \<Rightarrow> ('f pydict message list \<times> event list) \<times> string option" where
  "tool_calls_loop env [] (messages, out) = ((messages, out), None)"
| "tool_calls_loop env (tc # rest) (messages, out) =
     (case execute_tool_call env tc of
        (evs, Inl e) \<Rightarrow> ((messages, out @ evs), Some e)
      | (evs, Inr result) \<Rightarrow>
          tool_calls_loop env rest
            (messages @ [ToolMessage (tc_id tc) (function_name tc) result], out @ evs))"

text \<open>
  The state of \<open>run_agent\<close>: the transcript, the counter, the lines printed so far, and
  \<open>model_calls\<close>, which counts the calls of \<open>client.chat.completions.create\<close>.
\<close>

record 'r agent_state =
  messages :: "'r message list"
  iteration :: int
  model_calls :: nat
  printed :: "event list"

text \<open>
  The \<open>while\<close> loop. Each round increments the counter and calls the model inside
  \<open>try\<close>; \<open>except Exception\<close> prints the error and breaks, whether the model call or a
  tool call raised. A message without tool calls is the final answer and breaks.
\<close>

function agent_loop :: "'f agent_env \<Rightarrow> int \<Rightarrow> 'f pydict agent_state \<Rightarrow> 'f pydict agent_state" where
  "agent_loop env max_iterations st =
     (if iteration st < max_iterations then
        (let it = iteration st + 1;
             out = printed st @ [PrintIteration it] in
         case create env (messages st) of
           Inl e \<Rightarrow>
             st\<lparr>iteration := it, model_calls := model_calls st + 1,
                printed := out @ [PrintError e]\<rparr>
         | Inr message \<Rightarrow>
             (let ms = messages st @ [AssistantMessage message] in
              if tool_calls message \<noteq> [] then
                (case tool_calls_loop env (tool_calls message) (ms, out @ [PrintThought]) of
                   ((ms', out'), None) \<Rightarrow>
                     agent_loop env max_iterations
                       (st\<lparr>messages := ms', iteration := it,
                           model_calls := model_calls st + 1, printed := out'\<rparr>)
                 | ((ms', out'), Some e) \<Rightarrow>
                     st\<lparr>messages := ms', iteration := it,
                        model_calls := model_calls st + 1, printed := out' @ [PrintError e]\<rparr>)
              else
                st\<lparr>messages := ms, iteration := it, model_calls := model_calls st + 1,
                   printed := out @ [PrintFinalAnswer (msg_content message)]\<rparr>))
      else st)"
  by pat_completeness auto
termination
  by (relation "measure (\<lambda>(env, max_iterations, st). nat (max_iterations - iteration st))") auto

declare agent_loop.simps [simp del]

definition system_prompt :: string where
  "system_prompt = ''You are a helpful AI agent with access to tools.\<newline>            Use tools when needed to answer questions accurately.\<newline>            Always explain your reasoning.''"

text \<open>
  \<open>run_agent\<close> returns nothing; what it does is the final state. Without an API key it
  returns before the transcript exists. After the loop it prints the ceiling warning
  when \<open>iteration >= max_iterations\<close>.
\<close>

definition run_agent :: "'f agent_env \<Rightarrow> string \<Rightarrow> int \<Rightarrow> 'f pydict agent_state" where
  "run_agent env user_query max_iterations =
     (if \<not> check_api_key env then
        \<lparr>messages = [], iteration = 0, model_calls = 0,
         printed = [PrintTask user_query, PrintNoApiKey, PrintSkipping]\<rparr>
      else
        (let st = agent_loop env max_iterations
                    \<lparr>messages = [SystemMessage system_prompt, UserMessage user_query],
                     iteration = 0, model_calls = 0, printed = [PrintTask user_query]\<rparr>
         in if iteration st \<ge> max_iterations
            then st\<lparr>printed := printed st @ [PrintReachedMax max_iterations]\<rparr>
            else st))"

section \<open>Registration sequences and session outcomes\<close>

text \<open>
  A setup phase is a sequence of calls of \<open>register_tool\<close> and \<open>register_resource\<close>.
\<close>

datatype 'f registration =
    Tool string string "'f kwargs \<Rightarrow> 'f pyval raises"
  | Resource string string string string

fun register :: "'f server \<Rightarrow> 'f registration \<Rightarrow> 'f server" where
  "register self (Tool nm descr h) = register_tool self nm descr h"
| "register self (Resource u nm mime_type cont) = register_resource self u nm mime_type cont"

definition register_all :: "'f server \<Rightarrow> 'f registration list \<Rightarrow> 'f server" where
  "register_all self regs = foldl register self regs"


text \<open>
  How a run of \<open>run_agent\<close> reports its end: by the lines it printed. A final answer,
  an error and the ceiling warning are three different lines.
\<close>

fun is_final_answer :: "event \<Rightarrow> bool" where
  "is_final_answer (PrintFinalAnswer c) = True"
| "is_final_answer _ = False"

fun is_error :: "event \<Rightarrow> bool" where
  "is_error (PrintError e) = True"
| "is_error _ = False"

fun is_reached_max :: "event \<Rightarrow> bool" where
  "is_reached_max (PrintReachedMax n) = True"
| "is_reached_max _ = False"

definition answered :: "'r agent_state \<Rightarrow> bool" where
  "answered st = list_ex is_final_answer (printed st)"

definition failed :: "'r agent_state \<Rightarrow> bool" where
  "failed st = list_ex is_error (printed st)"

definition ceiling_reached :: "'r agent_state \<Rightarrow> bool" where
  "ceiling_reached st = list_ex is_reached_max (printed st)"

text \<open>A tool call is dispatched when \<open>execute_tool_call\<close> returns a value for it.\<close>

definition dispatched :: "'f agent_env \<Rightarrow> tool_call \<Rightarrow> 'f pydict tool_output \<Rightarrow> bool" where
  "dispatched env tc result = (snd (execute_tool_call env tc) = Inr result)"

definition returns :: "'f agent_env \<Rightarrow> tool_call \<Rightarrow> bool" where
  "returns env tc = (case snd (execute_tool_call env tc) of Inr result \<Rightarrow> True | Inl e \<Rightarrow> False)"

text \<open>
  The tool message that the loop appends for a call that returns (none for a call that
  raises), and the lines \<open>execute_tool_call\<close> prints for a call.
\<close>

definition tool_result_message :: "'f agent_env \<Rightarrow> tool_call \<Rightarrow> 'f pydict message list" where
  "tool_result_message env tc =
     (case snd (execute_tool_call env tc) of
        Inr result \<Rightarrow> [ToolMessage (tc_id tc) (function_name tc) result]
      | Inl e \<Rightarrow> [])"

definition tool_call_lines :: "'f agent_env \<Rightarrow> tool_call \<Rightarrow> event list" where
  "tool_call_lines env tc = fst (execute_tool_call env tc)"

section \<open>Concrete inputs\<close>

text \<open>
  The whole-number floats: a stand-in for Python's floats whose values are the integers,
  to evaluate the definitions at concrete inputs. It is not Python's float in general:
  it has no negative zero, no fractions (its division is floor division) and no
  rounding, and of the strings that \<open>float\<close> accepts it takes only the strings of decimal
  digits. It agrees with Python on the conversion of integers and digit strings below
  \<open>2^53\<close>, on the conversion of a string without a digit such as \<open>"abc"\<close>, and on sums
  and printing of non-negative whole numbers below \<open>2^53\<close>; the evaluations below use it
  only there.
\<close>

fun parse_digits :: "string \<Rightarrow> nat \<Rightarrow> nat option" where
  "parse_digits [] acc = Some acc"
| "parse_digits (c # cs) acc =
     (if c \<in> set ''0123456789'' then parse_digits cs (10 * acc + (of_char c - 48)) else None)"

fun whole_float :: "int pyval \<Rightarrow> int raises" where
  "whole_float PNone =
     Inl (''float() argument must be a string or a real number, not '' @ quoted ''NoneType'')"
| "whole_float (PBool b) = Inr (if b then 1 else 0)"
| "whole_float (PInt i) = Inr i"
| "whole_float (PFloat x) = Inr x"
| "whole_float (PStr s) =
     (case (if s = [] then None else parse_digits s 0) of
        Some n \<Rightarrow> Inr (int n)
      | None \<Rightarrow> Inl (''could not convert string to float: '' @ quoted s))"

definition whole_floats :: "int float_ops" where
  "whole_floats =
     \<lparr>py_float = whole_float, f_add = (+), f_sub = (-), f_mul = (*), f_truediv = (div),
      f_is_zero = (\<lambda>x. x = 0), f_str = (\<lambda>x. str_int x @ ''.0'')\<rparr>"

definition sample_now :: string where
  "sample_now = ''2024-01-01 12:00:00''"

text \<open>
  \<open>json.loads\<close> on the argument texts used below, and the JSONDecodeError message for
  text that is no JSON.
\<close>

definition sqrt_arguments :: string where
  "sqrt_arguments = ''{'' @ dq ''operation'' @ '': '' @ dq ''sqrt'' @ '', '' @ dq ''a'' @ '': 16}''"

definition query_arguments :: string where
  "query_arguments = ''{'' @ dq ''query'' @ '': '' @ dq ''agent'' @ ''}''"

definition sample_json_loads :: "string \<Rightarrow> int parsed raises" where
  "sample_json_loads s =
     (if s = sqrt_arguments then Inr (JObject [(''operation'', PStr ''sqrt''), (''a'', PInt 16)])
      else if s = query_arguments then Inr (JObject [(''query'', PStr ''agent'')])
      else if s = ''{}'' then Inr (JObject [])
      else Inl ''Expecting value: line 1 column 1 (char 0)'')"

text \<open>\<open>str.lower\<close> on ASCII text.\<close>

definition ascii_lower :: "string \<Rightarrow> string" where
  "ascii_lower s =
     map (\<lambda>c. if c \<in> set ''ABCDEFGHIJKLMNOPQRSTUVWXYZ''
               then char_of (of_char c + (32 :: nat)) else c) s"

text \<open>
  An environment with a configured key and a model given as a parameter. No run below
  reaches the body of \<open>calculator\<close> or of \<open>get_weather\<close>; the two bodies of this
  environment stand for them and raise.
\<close>

definition sample_env :: "(int pydict message list \<Rightarrow> assistant_message raises) \<Rightarrow> int agent_env" where
  "sample_env model =
     \<lparr>check_api_key = True, create = model, json_loads = sample_json_loads,
      str_lower = ascii_lower, py_module = ''__main__'',
      calculator_body = (\<lambda>operation a b. Inl ''calculator: body outside this environment''),
      get_weather_body = (\<lambda>location unit. Inl ''get_weather: body outside this environment'')\<rparr>"

text \<open>A model that answers every transcript with the same tool calls and never with text.\<close>

definition requests :: "tool_call list \<Rightarrow> 'r message list \<Rightarrow> assistant_message raises" where
  "requests tcs ms = Inr \<lparr>msg_content = None, tool_calls = tcs\<rparr>"

text \<open>A model that answers at once.\<close>

definition answers :: "string \<Rightarrow> 'r message list \<Rightarrow> assistant_message raises" where
  "answers text ms = Inr \<lparr>msg_content = Some text, tool_calls = []\<rparr>"

definition sqrt_call :: tool_call where
  "sqrt_call = \<lparr>tc_id = ''call_1'', function_name = ''calculator'',
                function_arguments = sqrt_arguments\<rparr>"

definition search_call :: tool_call where
  "search_call = \<lparr>tc_id = ''call_2'', function_name = ''search_knowledge_base'',
                  function_arguments = query_arguments\<rparr>"

definition lookup_call :: tool_call where
  "lookup_call = \<lparr>tc_id = ''call_3'', function_name = ''lookup'', function_arguments = ''{}''\<rparr>"

text \<open>
  A server on which the tool name \<open>echo\<close> and the uri \<open>resource://config\<close> are each
  registered twice.
\<close>

definition twice_registered :: "int server" where
  "twice_registered =
     register_tool
       (register_tool
         (register_resource
           (register_resource (SimpleMCPServer ''twice'')
              ''resource://config'' ''Configuration'' ''text/plain'' ''first'')
           ''resource://config'' ''Configuration'' ''text/plain'' ''second'')
         ''echo'' ''Echo back a message'' (echo_tool whole_floats))
       ''echo'' ''Get the current time'' (get_time_tool sample_now)"

section \<open>The registry and the dispatch of the server\<close>

subsection \<open>The two lookup loops\<close>

lemma call_tool_loop_not_found:
  "nm \<notin> set (map tool_name ts) \<Longrightarrow> call_tool_loop ops ts nm arguments = ToolError ''Tool not found''"
  by (induction ts) auto

lemma call_tool_loop_first:
  "nm \<notin> set (map tool_name pre) \<Longrightarrow> tool_name t = nm \<Longrightarrow>
   call_tool_loop ops (pre @ t # post) nm arguments =
     (case handler t arguments of Inr result \<Rightarrow> ToolContent (py_str ops result) | Inl e \<Rightarrow> ToolError e)"
  by (induction pre) auto

lemma call_tool_loop_present:
  "nm \<in> set (map tool_name ts) \<Longrightarrow>
   call_tool_loop ops (ts @ rest) nm arguments = call_tool_loop ops ts nm arguments"
  by (induction ts) auto

lemma call_tool_loop_find:
  "call_tool_loop ops ts nm arguments =
     (case find (\<lambda>t. tool_name t = nm) ts of
        None \<Rightarrow> ToolError ''Tool not found''
      | Some t \<Rightarrow> (case handler t arguments of
                     Inr result \<Rightarrow> ToolContent (py_str ops result) | Inl e \<Rightarrow> ToolError e))"
  by (induction ts) auto

lemma read_resource_loop_first:
  "u \<notin> set (map uri pre) \<Longrightarrow> uri r = u \<Longrightarrow>
   read_resource_loop (pre @ r # post) u = ResourceContents (uri r) (mimeType r) (content r)"
  by (induction pre) auto

lemma read_resource_loop_present:
  "u \<in> set (map uri rs) \<Longrightarrow> read_resource_loop (rs @ rest) u = read_resource_loop rs u"
  by (induction rs) auto

lemma tools_register_tool:
  "tools (register_tool self nm descr h) = tools self @
     [\<lparr>tool_name = nm, tool_description = descr, handler = h,
       inputSchema = \<lparr>schema_type = ''object'', properties = []\<rparr>\<rparr>]"
  by (simp add: register_tool_def)

lemma tools_register_resource: "tools (register_resource self u nm mime_type cont) = tools self"
  by (simp add: register_resource_def)

lemma resources_register_tool: "resources (register_tool self nm descr h) = resources self"
  by (simp add: register_tool_def)

lemma resources_register_resource:
  "resources (register_resource self u nm mime_type cont) = resources self @
     [\<lparr>uri = u, res_name = nm, mimeType = mime_type,
       res_description = ''Resource: '' @ nm, content = cont\<rparr>]"
  by (simp add: register_resource_def)


lemma schemas_register_all:
  "\<forall>t \<in> set (tools self). inputSchema t = \<lparr>schema_type = ''object'', properties = []\<rparr> \<Longrightarrow>
   \<forall>t \<in> set (tools (register_all self regs)). inputSchema t = \<lparr>schema_type = ''object'', properties = []\<rparr>"
  unfolding register_all_def
proof (induction regs arbitrary: self)
  case Nil
  then show ?case by simp
next
  case (Cons reg regs)
  have "\<forall>t \<in> set (tools (register self reg)). inputSchema t = \<lparr>schema_type = ''object'', properties = []\<rparr>"
    using Cons.prems by (cases reg) (auto simp: tools_register_tool tools_register_resource)
  then show ?case using Cons.IH by simp
qed

lemma tools_main_server:
  "map tool_name (tools (main_server ops now)) = [''calculator'', ''get_time'', ''echo'']"
  by (simp add: main_server_def tools_register_tool tools_register_resource SimpleMCPServer_def)


subsection \<open>Duplicate names: the first registration answers\<close>

text \<open>
  Claim C10. When two tools of a registry share a name, or two resources a uri, every
  \<open>call_tool\<close> of the name and every \<open>read_resource\<close> of the uri is answered by the
  entry registered first: the lookup scans the list in insertion order and returns at
  the first match. The entry at the first position where the name occurs is the one
  whose handler's outcome (or whose content) is returned, whatever follows it; and
  registering a name or uri that is already present changes no answer for it, so a later
  duplicate is never dispatched.
\<close>

theorem first_registration_is_dispatched:
  "(tools self = pre @ t # post \<and> tool_name t = nm \<and> nm \<notin> set (map tool_name pre) \<longrightarrow>
      call_tool ops self nm arguments =
        (case handler t arguments of
           Inr result \<Rightarrow> ToolContent (py_str ops result)
         | Inl e \<Rightarrow> ToolError e)) \<and>
   (nm \<in> set (map tool_name (tools self)) \<longrightarrow>
      call_tool ops (register_tool self nm descr h) nm arguments = call_tool ops self nm arguments) \<and>
   (resources self = rpre @ r # rpost \<and> uri r = u \<and> u \<notin> set (map uri rpre) \<longrightarrow>
      read_resource self u = ResourceContents (uri r) (mimeType r) (content r)) \<and>
   (u \<in> set (map uri (resources self)) \<longrightarrow>
      read_resource (register_resource self u rn mime_type cont) u = read_resource self u)"
  by (simp add: call_tool_def read_resource_def call_tool_loop_first call_tool_loop_present
      read_resource_loop_first read_resource_loop_present tools_register_tool
      resources_register_resource)

theorem first_registration_is_dispatched_witness:
  "call_tool whole_floats twice_registered ''echo'' [(''message'', PStr ''hi'')]
     = ToolContent ''Echo: hi'' \<and>
   call_tool whole_floats
       (register_tool twice_registered ''echo'' ''Echo, a third time'' (get_time_tool sample_now))
       ''echo'' [(''message'', PStr ''hi'')]
     = ToolContent ''Echo: hi'' \<and>
   read_resource twice_registered ''resource://config''
     = ResourceContents ''resource://config'' ''text/plain'' ''first'' \<and>
   read_resource
       (register_resource twice_registered ''resource://config'' ''Configuration'' ''text/plain'' ''third'')
       ''resource://config''
     = ResourceContents ''resource://config'' ''text/plain'' ''first''"
proof -
  let ?t = "\<lparr>tool_name = ''echo'', tool_description = ''Echo back a message'',
             handler = echo_tool whole_floats,
             inputSchema = \<lparr>schema_type = ''object'', properties = []\<rparr>\<rparr>"
  let ?t2 = "\<lparr>tool_name = ''echo'', tool_description = ''Get the current time'',
             handler = get_time_tool sample_now,
             inputSchema = \<lparr>schema_type = ''object'', properties = []\<rparr>\<rparr>"
  let ?r = "\<lparr>uri = ''resource://config'', res_name = ''Configuration'', mimeType = ''text/plain'',
             res_description = ''Resource: Configuration'', content = ''first''\<rparr>"
  let ?r2 = "\<lparr>uri = ''resource://config'', res_name = ''Configuration'', mimeType = ''text/plain'',
             res_description = ''Resource: Configuration'', content = ''second''\<rparr>"
  have ts: "tools twice_registered = [] @ ?t # [?t2]"
    by (simp add: twice_registered_def tools_register_tool tools_register_resource
        SimpleMCPServer_def)
  have rs: "resources twice_registered = [] @ ?r # [?r2]"
    by (simp add: twice_registered_def resources_register_tool resources_register_resource
        SimpleMCPServer_def)
  have h: "handler ?t [(''message'', PStr ''hi'')] = Inr (PStr ''Echo: hi'')"
    by (simp add: echo_tool_def unexpected_keyword_def)
  note inst = first_registration_is_dispatched
    [where self = twice_registered and pre = "[]" and t = "?t" and post = "[?t2]" and nm = "''echo''"
       and ops = whole_floats and arguments = "[(''message'', PStr ''hi'')]"
       and rpre = "[]" and r = "?r" and rpost = "[?r2]" and u = "''resource://config''"
       and descr = "''Echo, a third time''" and h = "get_time_tool sample_now"
       and rn = "''Configuration''" and mime_type = "''text/plain''" and cont = "''third''"]
  from inst ts rs h show ?thesis by simp
qed

subsection \<open>The server that \<open>main\<close> builds\<close>

lemma main_server_register_all:
  "main_server ops now =
     register_all (SimpleMCPServer ''demo-mcp-server'')
       [Resource ''resource://documentation'' ''API Documentation'' ''text/markdown''
          ''# API Documentation\<newline>\<newline>This is sample documentation.'',
        Resource ''resource://config'' ''Configuration'' ''application/json''
          (''{'' @ dq ''env'' @ '': '' @ dq ''production'' @ '', '' @ dq ''debug'' @ '': false}''),
        Tool ''calculator'' ''Perform basic arithmetic operations'' (calculator_tool ops),
        Tool ''get_time'' ''Get the current time'' (get_time_tool now),
        Tool ''echo'' ''Echo back a message'' (echo_tool ops)]"
  by (simp add: main_server_def register_all_def)

lemma tools_main_server_full:
  "tools (main_server ops now) =
     [\<lparr>tool_name = ''calculator'', tool_description = ''Perform basic arithmetic operations'',
       handler = calculator_tool ops, inputSchema = \<lparr>schema_type = ''object'', properties = []\<rparr>\<rparr>,
      \<lparr>tool_name = ''get_time'', tool_description = ''Get the current time'',
       handler = get_time_tool now, inputSchema = \<lparr>schema_type = ''object'', properties = []\<rparr>\<rparr>,
      \<lparr>tool_name = ''echo'', tool_description = ''Echo back a message'',
       handler = echo_tool ops, inputSchema = \<lparr>schema_type = ''object'', properties = []\<rparr>\<rparr>]"
  by (simp add: main_server_def tools_register_tool tools_register_resource SimpleMCPServer_def)

lemma call_tool_calculator:
  "call_tool ops (main_server ops now) ''calculator'' arguments =
     (case calculator_tool ops arguments of
        Inr result \<Rightarrow> ToolContent (py_str ops result)
      | Inl e \<Rightarrow> ToolError e)"
  by (simp add: call_tool_def tools_main_server_full)

lemma call_tool_echo:
  "call_tool ops (main_server ops now) ''echo'' arguments =
     (case echo_tool ops arguments of
        Inr result \<Rightarrow> ToolContent (py_str ops result)
      | Inl e \<Rightarrow> ToolError e)"
  by (simp add: call_tool_def tools_main_server_full)

lemma unexpected_keyword_None:
  "unexpected_keyword fname params kwargs = None \<longleftrightarrow> set (map fst kwargs) \<subseteq> set params"
proof -
  have "unexpected_keyword fname params kwargs = None
          \<longleftrightarrow> filter (\<lambda>k. k \<notin> set params) (map fst kwargs) = []"
    by (simp add: unexpected_keyword_def split: list.splits)
  also have "\<dots> \<longleftrightarrow> set (map fst kwargs) \<subseteq> set params"
    by (auto simp: filter_empty_conv)
  finally show ?thesis .
qed

lemma operations_get_Some:
  "operation \<in> {PStr ''add'', PStr ''subtract'', PStr ''multiply'', PStr ''divide''} \<Longrightarrow>
   \<exists>f. operations_get ops operation = Some f"
  by (auto simp: operations_def)

lemma calculator_tool_bound:
  assumes "set (map fst arguments) \<subseteq> {''operation'', ''a'', ''b''}"
    and "map_of arguments ''operation'' = Some operation"
    and "map_of arguments ''a'' = Some a"
    and "map_of arguments ''b'' = Some b"
  shows "calculator_tool ops arguments = calculator_tool_body ops operation a b"
proof -
  have "unexpected_keyword ''calculator_tool'' [''operation'', ''a'', ''b''] arguments = None"
    using assms(1) by (simp add: unexpected_keyword_None)
  with assms(2-4) show ?thesis by (simp add: calculator_tool_def)
qed

subsection \<open>Registration appends\<close>




subsection \<open>No validation step\<close>

text \<open>
  Claim C4, as the code has it. There is no validation between lookup and handler. The
  schema that \<open>register_tool\<close> stores is the same for every tool, an object without
  properties, so after any setup no tool declares a parameter, a type or a set of allowed
  values; and \<open>call_tool\<close> never reads it: its result is the outcome of the handler of
  the first tool with the name, applied to the arguments exactly as they were given
  (\<open>ToolError\<close> with the handler's exception, among them the TypeError of Python's
  keyword binding for a wrong argument name).
\<close>

theorem call_tool_passes_arguments_unchecked:
  "(\<forall>t \<in> set (tools (register_all (SimpleMCPServer sn) regs)).
      inputSchema t = \<lparr>schema_type = ''object'', properties = []\<rparr>) \<and>
   call_tool ops self nm arguments =
     (case find (\<lambda>t. tool_name t = nm) (tools self) of
        None \<Rightarrow> ToolError ''Tool not found''
      | Some t \<Rightarrow>
          (case handler t arguments of
             Inr result \<Rightarrow> ToolContent (py_str ops result)
           | Inl e \<Rightarrow> ToolError e))"
proof
  have "\<forall>t \<in> set (tools (SimpleMCPServer sn :: 'a server)).
          inputSchema t = \<lparr>schema_type = ''object'', properties = []\<rparr>"
    by (simp add: SimpleMCPServer_def)
  then show "\<forall>t \<in> set (tools (register_all (SimpleMCPServer sn :: 'a server) regs)).
      inputSchema t = \<lparr>schema_type = ''object'', properties = []\<rparr>"
    by (rule schemas_register_all)
next
  show "call_tool ops self nm arguments =
     (case find (\<lambda>t. tool_name t = nm) (tools self) of
        None \<Rightarrow> ToolError ''Tool not found''
      | Some t \<Rightarrow>
          (case handler t arguments of
             Inr result \<Rightarrow> ToolContent (py_str ops result)
           | Inl e \<Rightarrow> ToolError e))"
    by (simp add: call_tool_def call_tool_loop_find)
qed

text \<open>
  On the server of \<open>main\<close>: the schema of \<open>echo\<close> is the empty one, and \<open>echo\<close> called
  with an integer for \<open>message\<close> runs its handler.
\<close>

theorem call_tool_passes_arguments_unchecked_witness:
  "inputSchema (tools (main_server whole_floats sample_now) ! 2)
     = \<lparr>schema_type = ''object'', properties = []\<rparr> \<and>
   call_tool whole_floats (main_server whole_floats sample_now) ''echo'' [(''message'', PInt 7)]
     = ToolContent ''Echo: 7''"
proof -
  let ?regs = "[Resource ''resource://documentation'' ''API Documentation'' ''text/markdown''
          ''# API Documentation\<newline>\<newline>This is sample documentation.'',
        Resource ''resource://config'' ''Configuration'' ''application/json''
          (''{'' @ dq ''env'' @ '': '' @ dq ''production'' @ '', '' @ dq ''debug'' @ '': false}''),
        Tool ''calculator'' ''Perform basic arithmetic operations'' (calculator_tool whole_floats),
        Tool ''get_time'' ''Get the current time'' (get_time_tool sample_now),
        Tool ''echo'' ''Echo back a message'' (echo_tool whole_floats)]"
  note inst = call_tool_passes_arguments_unchecked
    [where sn = "''demo-mcp-server''" and regs = ?regs and ops = whole_floats
       and self = "main_server whole_floats sample_now" and nm = "''echo''"
       and arguments = "[(''message'', PInt 7)]"]
  have mem: "tools (main_server whole_floats sample_now) ! 2
               \<in> set (tools (main_server whole_floats sample_now))"
    by (simp add: tools_main_server_full)
  have str7: "str_int 7 = ''7''" by code_simp
  have "\<forall>t \<in> set (tools (main_server whole_floats sample_now)).
          inputSchema t = \<lparr>schema_type = ''object'', properties = []\<rparr>"
    unfolding main_server_register_all by (rule inst [THEN conjunct1])
  with mem have "inputSchema (tools (main_server whole_floats sample_now) ! 2)
     = \<lparr>schema_type = ''object'', properties = []\<rparr>"
    by blast
  moreover have "call_tool whole_floats (main_server whole_floats sample_now) ''echo''
      [(''message'', PInt 7)] = ToolContent ''Echo: 7''"
    using inst by (simp add: tools_main_server_full echo_tool_def unexpected_keyword_def str7)
  ultimately show ?thesis by simp
qed

text \<open>
  Claim C4 as stated fails: the schema of \<open>echo\<close> declares no parameter, so \<open>message\<close>
  is a name the schema does not know, and the call that \<open>main\<close> makes is not rejected:
  the handler runs on it.
\<close>

theorem schema_validation_counterexample:
  "tool_name (tools (main_server whole_floats sample_now) ! 2) = ''echo'' \<and>
   properties (inputSchema (tools (main_server whole_floats sample_now) ! 2)) = [] \<and>
   call_tool whole_floats (main_server whole_floats sample_now) ''echo''
       [(''message'', PStr ''Hello, MCP!'')]
     = ToolContent ''Echo: Hello, MCP!''"
  by (simp add: call_tool_echo echo_tool_def unexpected_keyword_def tools_main_server_full)

subsection \<open>Names that are not registered\<close>

text \<open>
  Claim C3, as the code has it. For a name that no tool of the registry has,
  \<open>call_tool\<close> returns the error result with the fixed message \<open>Tool not found\<close>, whatever
  the name and the arguments; it calls no handler and raises nothing. In the agent,
  \<open>execute_tool_call\<close> for a function name outside \<open>TOOL_FUNCTIONS\<close> returns the error
  JSON \<open>Unknown function: name\<close>, which carries the name, once \<open>json.loads\<close> has parsed
  the arguments.
\<close>

theorem unknown_name_is_an_error_result:
  "(nm \<notin> set (map tool_name (tools self)) \<longrightarrow>
      call_tool ops self nm arguments = ToolError ''Tool not found'') \<and>
   (function_name tc \<notin> {''calculator'', ''get_weather'', ''search_knowledge_base''} \<and>
    json_loads env (function_arguments tc) = Inr function_args \<longrightarrow>
      execute_tool_call env tc =
        ([PrintCalling (function_name tc)],
         Inr (DumpsError (''Unknown function: '' @ function_name tc))))"
  by (auto simp: call_tool_def call_tool_loop_not_found execute_tool_call_def TOOL_FUNCTIONS_def)

text \<open>
  On the server of \<open>main\<close>, \<open>subtract\<close> is not found; in the agent, the unknown function
  \<open>lookup\<close> gets the error JSON with its name.
\<close>

theorem unknown_name_is_an_error_result_witness:
  "call_tool whole_floats (main_server whole_floats sample_now) ''subtract''
       [(''a'', PInt 5), (''b'', PInt 3)]
     = ToolError ''Tool not found'' \<and>
   execute_tool_call (sample_env (answers ''done'')) lookup_call
     = ([PrintCalling ''lookup''], Inr (DumpsError ''Unknown function: lookup''))"
proof -
  note inst = unknown_name_is_an_error_result
    [where nm = "''subtract''" and self = "main_server whole_floats sample_now"
       and ops = whole_floats and arguments = "[(''a'', PInt 5), (''b'', PInt 3)]"
       and tc = lookup_call and env = "sample_env (answers ''done'')"
       and function_args = "JObject []"]
  have absent: "''subtract'' \<notin> set (map tool_name (tools (main_server whole_floats sample_now)))"
    by (simp add: tools_main_server)
  have parsed: "json_loads (sample_env (answers ''done'')) (function_arguments lookup_call)
                  = Inr (JObject [])"
    by (simp add: sample_env_def lookup_call_def sample_json_loads_def sqrt_arguments_def
        query_arguments_def)
  from inst absent parsed show ?thesis by (simp add: lookup_call_def)
qed

text \<open>
  Claim C3 as stated fails. The server answers \<open>subtract\<close> and \<open>modulo\<close> with the same
  result, which names neither. And \<open>execute_tool_call\<close> parses the arguments before it
  looks the name up: for \<open>subtract\<close> with arguments that are no JSON it raises the
  JSONDecodeError instead of returning.
\<close>

theorem unknown_name_counterexample:
  "call_tool whole_floats (main_server whole_floats sample_now) ''subtract''
       [(''a'', PInt 5), (''b'', PInt 3)]
     = ToolError ''Tool not found'' \<and>
   call_tool whole_floats (main_server whole_floats sample_now) ''modulo''
       [(''a'', PInt 5), (''b'', PInt 3)]
     = ToolError ''Tool not found'' \<and>
   execute_tool_call (sample_env (answers ''done''))
       \<lparr>tc_id = ''call_4'', function_name = ''subtract'', function_arguments = ''''\<rparr>
     = ([], Inl ''Expecting value: line 1 column 1 (char 0)'')"
  by (simp add: call_tool_def tools_main_server_full execute_tool_call_def sample_env_def
      sample_json_loads_def sqrt_arguments_def query_arguments_def)

subsection \<open>The calculator tool\<close>

text \<open>
  Claim C8, as the code has it. When the operation is one of \<open>add\<close>, \<open>subtract\<close>,
  \<open>multiply\<close> and \<open>divide\<close>, \<open>calculator_tool\<close> converts both operands with \<open>float\<close>
  before the operation uses them: a string that \<open>float\<close> accepts enters the computation
  as that float, and an operand that \<open>float\<close> rejects makes the call end with the
  conversion's exception, which \<open>call_tool\<close> returns as the error result. No operand is
  replaced by zero.
\<close>

theorem calculator_tool_coerces_numeric_arguments:
  assumes "operation \<in> {PStr ''add'', PStr ''subtract'', PStr ''multiply'', PStr ''divide''}"
    and "set (map fst arguments) \<subseteq> {''operation'', ''a'', ''b''}"
    and "map_of arguments ''operation'' = Some operation"
    and "map_of arguments ''a'' = Some a"
    and "map_of arguments ''b'' = Some b"
  shows "\<exists>f. operations_get ops operation = Some f \<and>
     call_tool ops (main_server ops now) ''calculator'' arguments =
       (case py_float ops a of
          Inl e \<Rightarrow> ToolError e
        | Inr x \<Rightarrow>
            (case py_float ops b of
               Inl e \<Rightarrow> ToolError e
             | Inr y \<Rightarrow>
                 ToolContent (py_str ops operation @ ''('' @ py_str ops a @ '', '' @ py_str ops b
                              @ '') = '' @ py_str ops (f x y))))"
proof -
  from assms(1) obtain f where f: "operations_get ops operation = Some f"
    using operations_get_Some by blast
  have "calculator_tool ops arguments = calculator_tool_body ops operation a b"
    using assms(2-5) by (rule calculator_tool_bound)
  with f have "call_tool ops (main_server ops now) ''calculator'' arguments =
       (case py_float ops a of
          Inl e \<Rightarrow> ToolError e
        | Inr x \<Rightarrow>
            (case py_float ops b of
               Inl e \<Rightarrow> ToolError e
             | Inr y \<Rightarrow>
                 ToolContent (py_str ops operation @ ''('' @ py_str ops a @ '', '' @ py_str ops b
                              @ '') = '' @ py_str ops (f x y))))"
    by (simp add: call_tool_calculator calculator_tool_body_def split: sum.splits)
  with f show ?thesis by blast
qed

text \<open>
  With the whole-number floats: \<open>"27"\<close> is added as 27, and \<open>"abc"\<close> gives the error
  result of the conversion.
\<close>

theorem calculator_tool_coerces_numeric_arguments_witness:
  "call_tool whole_floats (main_server whole_floats sample_now) ''calculator''
       [(''operation'', PStr ''add''), (''a'', PInt 15), (''b'', PStr ''27'')]
     = ToolContent ''add(15, 27) = 42.0'' \<and>
   call_tool whole_floats (main_server whole_floats sample_now) ''calculator''
       [(''operation'', PStr ''add''), (''a'', PInt 15), (''b'', PStr ''abc'')]
     = ToolError (''could not convert string to float: '' @ quoted ''abc'')"
proof -
  have add: "operations_get whole_floats (PStr ''add'') = Some (\<lambda>x y. PFloat (x + y))"
    by (simp add: operations_def whole_floats_def)
  have s15: "str_int 15 = ''15''" and s42: "str_int 42 = ''42''" by code_simp+
  have "\<exists>f. operations_get whole_floats (PStr ''add'') = Some f \<and>
     call_tool whole_floats (main_server whole_floats sample_now) ''calculator''
       [(''operation'', PStr ''add''), (''a'', PInt 15), (''b'', PStr ''27'')] =
       (case py_float whole_floats (PInt 15) of
          Inl e \<Rightarrow> ToolError e
        | Inr x \<Rightarrow>
            (case py_float whole_floats (PStr ''27'') of
               Inl e \<Rightarrow> ToolError e
             | Inr y \<Rightarrow>
                 ToolContent (py_str whole_floats (PStr ''add'') @ ''('' @ py_str whole_floats (PInt 15)
                    @ '', '' @ py_str whole_floats (PStr ''27'')
                    @ '') = '' @ py_str whole_floats (f x y))))"
    by (rule calculator_tool_coerces_numeric_arguments) simp_all
  then obtain f where "operations_get whole_floats (PStr ''add'') = Some f"
    and c1: "call_tool whole_floats (main_server whole_floats sample_now) ''calculator''
       [(''operation'', PStr ''add''), (''a'', PInt 15), (''b'', PStr ''27'')] =
       (case py_float whole_floats (PInt 15) of
          Inl e \<Rightarrow> ToolError e
        | Inr x \<Rightarrow>
            (case py_float whole_floats (PStr ''27'') of
               Inl e \<Rightarrow> ToolError e
             | Inr y \<Rightarrow>
                 ToolContent (py_str whole_floats (PStr ''add'') @ ''('' @ py_str whole_floats (PInt 15)
                    @ '', '' @ py_str whole_floats (PStr ''27'')
                    @ '') = '' @ py_str whole_floats (f x y))))"
    by blast
  with add have f: "f = (\<lambda>x y. PFloat (x + y))" by simp
  have one: "call_tool whole_floats (main_server whole_floats sample_now) ''calculator''
       [(''operation'', PStr ''add''), (''a'', PInt 15), (''b'', PStr ''27'')]
     = ToolContent ''add(15, 27) = 42.0''"
    unfolding c1 f by (simp add: whole_floats_def s15 s42)
  have "\<exists>f. operations_get whole_floats (PStr ''add'') = Some f \<and>
     call_tool whole_floats (main_server whole_floats sample_now) ''calculator''
       [(''operation'', PStr ''add''), (''a'', PInt 15), (''b'', PStr ''abc'')] =
       (case py_float whole_floats (PInt 15) of
          Inl e \<Rightarrow> ToolError e
        | Inr x \<Rightarrow>
            (case py_float whole_floats (PStr ''abc'') of
               Inl e \<Rightarrow> ToolError e
             | Inr y \<Rightarrow>
                 ToolContent (py_str whole_floats (PStr ''add'') @ ''('' @ py_str whole_floats (PInt 15)
                    @ '', '' @ py_str whole_floats (PStr ''abc'')
                    @ '') = '' @ py_str whole_floats (f x y))))"
    by (rule calculator_tool_coerces_numeric_arguments) simp_all
  then have two: "call_tool whole_floats (main_server whole_floats sample_now) ''calculator''
       [(''operation'', PStr ''add''), (''a'', PInt 15), (''b'', PStr ''abc'')]
     = ToolError (''could not convert string to float: '' @ quoted ''abc'')"
    by (auto simp: whole_floats_def)
  from one two show ?thesis by simp
qed

text \<open>
  Claim C8 as stated fails for an operation the tool does not know: the operands are
  never converted, and the call with the operand \<open>"abc"\<close> succeeds with a text result.
\<close>

theorem unknown_operation_counterexample:
  "call_tool whole_floats (main_server whole_floats sample_now) ''calculator''
       [(''operation'', PStr ''power''), (''a'', PStr ''abc''), (''b'', PInt 2)]
     = ToolContent ''Unknown operation: power''"
  by (simp add: call_tool_calculator calculator_tool_def calculator_tool_body_def
      unexpected_keyword_def operations_def)

subsection \<open>Registering and invoking \<open>add\<close>\<close>

text \<open>
  Claim C9. After \<open>register_tool\<close> has registered the handler \<open>add(a, b) \<rightarrow> a + b\<close>
  under the name \<open>add\<close>, on any server that had no tool of that name, \<open>call_tool\<close> of
  \<open>add\<close> with the arguments \<open>{a: 15, b: 27}\<close> returns the success result, and the value
  it carries is 42: the content is \<open>str\<close> of the integer the handler returned.
\<close>

theorem registered_add_returns_42:
  assumes "''add'' \<notin> set (map tool_name (tools self))"
  shows "call_tool ops (register_tool self ''add'' descr (add_tool ops)) ''add''
           [(''a'', PInt 15), (''b'', PInt 27)]
         = ToolContent ''42''"
proof -
  have s42: "str_int 42 = ''42''" by code_simp
  have "add_tool ops [(''a'', PInt 15), (''b'', PInt 27)] = Inr (PInt 42)"
    by (simp add: add_tool_def unexpected_keyword_def)
  with assms show ?thesis
    by (simp add: call_tool_def tools_register_tool call_tool_loop_first s42)
qed

text \<open>On a new server and on the server of \<open>main\<close>.\<close>

theorem registered_add_returns_42_witness:
  "call_tool whole_floats
       (register_tool (SimpleMCPServer ''demo-mcp-server'') ''add'' ''Add two numbers''
          (add_tool whole_floats))
       ''add'' [(''a'', PInt 15), (''b'', PInt 27)]
     = ToolContent ''42'' \<and>
   call_tool whole_floats
       (register_tool (main_server whole_floats sample_now) ''add'' ''Add two numbers''
          (add_tool whole_floats))
       ''add'' [(''a'', PInt 15), (''b'', PInt 27)]
     = ToolContent ''42''"
proof -
  have fresh: "''add'' \<notin> set (map tool_name (tools (SimpleMCPServer ''demo-mcp-server'' :: int server)))"
    by (simp add: SimpleMCPServer_def)
  have main: "''add'' \<notin> set (map tool_name (tools (main_server whole_floats sample_now)))"
    by (simp add: tools_main_server)
  from registered_add_returns_42 [OF fresh] registered_add_returns_42 [OF main]
  show ?thesis by simp
qed

text \<open>
  The repository's own addition is the calculator tool of \<open>main\<close>, called with the
  operation as a third argument. Its success result carries a text: the call, then
  \<open>str\<close> of the sum of the two converted operands, \<open>42.0\<close> in Python.
\<close>

lemma calculator_add_15_27:
  assumes "py_float ops (PInt 15) = Inr x"
    and "py_float ops (PInt 27) = Inr y"
  shows "call_tool ops (main_server ops now) ''calculator''
           [(''operation'', PStr ''add''), (''a'', PInt 15), (''b'', PInt 27)]
         = ToolContent (''add(15, 27) = '' @ f_str ops (f_add ops x y))"
proof -
  have s15: "str_int 15 = ''15''" and s27: "str_int 27 = ''27''" by code_simp+
  show ?thesis
    using assms
    by (simp add: call_tool_calculator calculator_tool_def calculator_tool_body_def
        unexpected_keyword_def operations_def s15 s27)
qed

lemma calculator_add_15_27_whole_floats:
  "call_tool whole_floats (main_server whole_floats sample_now) ''calculator''
     [(''operation'', PStr ''add''), (''a'', PInt 15), (''b'', PInt 27)]
   = ToolContent ''add(15, 27) = 42.0''"
proof -
  have s42: "str_int 42 = ''42''" by code_simp
  have "call_tool whole_floats (main_server whole_floats sample_now) ''calculator''
           [(''operation'', PStr ''add''), (''a'', PInt 15), (''b'', PInt 27)]
         = ToolContent (''add(15, 27) = '' @ f_str whole_floats (f_add whole_floats 15 27))"
    by (rule calculator_add_15_27) (simp_all add: whole_floats_def)
  then show ?thesis by (simp add: whole_floats_def s42)
qed

section \<open>The agent loop\<close>

subsection \<open>The branches of one round\<close>

lemma agent_loop_stop:
  "\<not> iteration st < N \<Longrightarrow> agent_loop env N st = st"
  by (simp add: agent_loop.simps [of env N st])

lemma agent_loop_model_raises:
  "iteration st < N \<Longrightarrow> create env (messages st) = Inl e \<Longrightarrow>
   agent_loop env N st =
     st\<lparr>iteration := iteration st + 1, model_calls := model_calls st + 1,
        printed := printed st @ [PrintIteration (iteration st + 1), PrintError e]\<rparr>"
  by (simp add: agent_loop.simps [of env N st] Let_def)

lemma agent_loop_answer:
  "iteration st < N \<Longrightarrow> create env (messages st) = Inr m \<Longrightarrow> tool_calls m = [] \<Longrightarrow>
   agent_loop env N st =
     st\<lparr>messages := messages st @ [AssistantMessage m], iteration := iteration st + 1,
        model_calls := model_calls st + 1,
        printed := printed st @ [PrintIteration (iteration st + 1), PrintFinalAnswer (msg_content m)]\<rparr>"
  by (simp add: agent_loop.simps [of env N st] Let_def)

lemma agent_loop_tools:
  "iteration st < N \<Longrightarrow> create env (messages st) = Inr m \<Longrightarrow> tool_calls m \<noteq> [] \<Longrightarrow>
   tool_calls_loop env (tool_calls m)
     (messages st @ [AssistantMessage m], printed st @ [PrintIteration (iteration st + 1), PrintThought])
     = ((ms', out'), None) \<Longrightarrow>
   agent_loop env N st =
     agent_loop env N
       (st\<lparr>messages := ms', iteration := iteration st + 1, model_calls := model_calls st + 1,
           printed := out'\<rparr>)"
  by (simp add: agent_loop.simps [of env N st] Let_def)

lemma agent_loop_tool_raises:
  "iteration st < N \<Longrightarrow> create env (messages st) = Inr m \<Longrightarrow> tool_calls m \<noteq> [] \<Longrightarrow>
   tool_calls_loop env (tool_calls m)
     (messages st @ [AssistantMessage m], printed st @ [PrintIteration (iteration st + 1), PrintThought])
     = ((ms', out'), Some e) \<Longrightarrow>
   agent_loop env N st =
     st\<lparr>messages := ms', iteration := iteration st + 1, model_calls := model_calls st + 1,
        printed := out' @ [PrintError e]\<rparr>"
  by (simp add: agent_loop.simps [of env N st] Let_def)

lemma returns_iff: "returns env tc \<longleftrightarrow> (\<exists>evs r. execute_tool_call env tc = (evs, Inr r))"
  by (cases "execute_tool_call env tc") (auto simp: returns_def split: sum.splits)

lemma execute_tool_call_events:
  "execute_tool_call env tc = (evs, r) \<Longrightarrow>
   \<not> list_ex is_final_answer evs \<and> \<not> list_ex is_error evs \<and> \<not> list_ex is_reached_max evs"
  by (auto simp: execute_tool_call_def split: sum.splits option.splits)

lemma tool_calls_loop_events:
  "tool_calls_loop env tcs (ms, out) = ((ms', out'), err) \<Longrightarrow>
   list_ex is_final_answer out' = list_ex is_final_answer out \<and>
   list_ex is_error out' = list_ex is_error out \<and>
   list_ex is_reached_max out' = list_ex is_reached_max out"
proof (induction tcs arbitrary: ms out)
  case Nil
  then show ?case by simp
next
  case (Cons tc tcs)
  obtain evs r where ex: "execute_tool_call env tc = (evs, r)" by (cases "execute_tool_call env tc")
  note quiet = execute_tool_call_events [OF ex]
  show ?case
  proof (cases r)
    case (Inl e)
    with Cons.prems ex quiet show ?thesis by auto
  next
    case (Inr result)
    with Cons.prems ex
    have "tool_calls_loop env tcs
            (ms @ [ToolMessage (tc_id tc) (function_name tc) result], out @ evs) = ((ms', out'), err)"
      by simp
    from Cons.IH [OF this] quiet show ?thesis by auto
  qed
qed

lemma tool_calls_loop_returns:
  "\<forall>tc \<in> set tcs. returns env tc \<Longrightarrow>
   \<exists>results out'. tool_calls_loop env tcs (ms, out) = ((ms @ results, out'), None) \<and>
     list_all2 (\<lambda>tc msg. \<exists>r. dispatched env tc r \<and> msg = ToolMessage (tc_id tc) (function_name tc) r)
       tcs results"
proof (induction tcs arbitrary: ms out)
  case Nil
  then show ?case by simp
next
  case (Cons tc tcs)
  from Cons.prems obtain evs r where ex: "execute_tool_call env tc = (evs, Inr r)"
    by (auto simp: returns_iff)
  from Cons.prems have "\<forall>tc \<in> set tcs. returns env tc" by simp
  from Cons.IH [OF this, of "ms @ [ToolMessage (tc_id tc) (function_name tc) r]" "out @ evs"]
  obtain results out' where
    loop: "tool_calls_loop env tcs (ms @ [ToolMessage (tc_id tc) (function_name tc) r], out @ evs)
             = (((ms @ [ToolMessage (tc_id tc) (function_name tc) r]) @ results, out'), None)"
    and all2: "list_all2 (\<lambda>tc msg. \<exists>r. dispatched env tc r \<and> msg = ToolMessage (tc_id tc) (function_name tc) r)
       tcs results"
    by blast
  have "dispatched env tc r" using ex by (simp add: dispatched_def)
  with loop all2 ex show ?case
    by (intro exI [of _ "ToolMessage (tc_id tc) (function_name tc) r # results"] exI [of _ out']) simp
qed

lemma model_calls_agent_loop:
  "int (model_calls (agent_loop env N st)) \<le> int (model_calls st) + max 0 (N - iteration st)"
proof (induction env N st rule: agent_loop.induct)
  case (1 env N st)
  show ?case
  proof (cases "iteration st < N")
    case False
    then show ?thesis by (simp add: agent_loop_stop)
  next
    case True
    show ?thesis
    proof (cases "create env (messages st)")
      case (Inl e)
      with True show ?thesis by (simp add: agent_loop_model_raises)
    next
      case (Inr m)
      show ?thesis
      proof (cases "tool_calls m = []")
        case True
        with Inr \<open>iteration st < N\<close> show ?thesis by (simp add: agent_loop_answer)
      next
        case False
        obtain ms' out' err where loop:
          "tool_calls_loop env (tool_calls m)
             (messages st @ [AssistantMessage m],
              printed st @ [PrintIteration (iteration st + 1), PrintThought])
           = ((ms', out'), err)"
          by (metis surj_pair)
        show ?thesis
        proof (cases err)
          case (Some e)
          with loop Inr False \<open>iteration st < N\<close> show ?thesis
            by (simp add: agent_loop_tool_raises)
        next
          case None
          from "1.IH" [OF True refl refl Inr refl False] loop None
          have "int (model_calls (agent_loop env N
                  (st\<lparr>messages := ms', iteration := iteration st + 1,
                       model_calls := model_calls st + 1, printed := out'\<rparr>)))
                \<le> int (model_calls st + 1) + max 0 (N - (iteration st + 1))"
            by simp
          moreover from loop None Inr False \<open>iteration st < N\<close>
          have "agent_loop env N st = agent_loop env N
                  (st\<lparr>messages := ms', iteration := iteration st + 1,
                       model_calls := model_calls st + 1, printed := out'\<rparr>)"
            by (simp add: agent_loop_tools)
          ultimately show ?thesis using \<open>iteration st < N\<close> by simp
        qed
      qed
    qed
  qed
qed

lemma agent_loop_exhausts:
  "\<forall>ms. \<exists>m. create env ms = Inr m \<and> tool_calls m \<noteq> [] \<and>
          (\<forall>tc \<in> set (tool_calls m). returns env tc) \<Longrightarrow>
   iteration st \<le> N \<Longrightarrow>
     iteration (agent_loop env N st) = N \<and>
     model_calls (agent_loop env N st) = model_calls st + nat (N - iteration st) \<and>
     list_ex is_final_answer (printed (agent_loop env N st)) = list_ex is_final_answer (printed st) \<and>
     list_ex is_error (printed (agent_loop env N st)) = list_ex is_error (printed st) \<and>
     list_ex is_reached_max (printed (agent_loop env N st)) = list_ex is_reached_max (printed st)"
proof (induction env N st rule: agent_loop.induct)
  case (1 env N st)
  show ?case
  proof (cases "iteration st < N")
    case False
    with "1.prems"(2) show ?thesis by (simp add: agent_loop_stop)
  next
    case True
    from "1.prems"(1) obtain m where m: "create env (messages st) = Inr m"
      and nonempty: "tool_calls m \<noteq> []"
      and ret: "\<forall>tc \<in> set (tool_calls m). returns env tc"
      by blast
    from tool_calls_loop_returns [OF ret]
    obtain results out' where loop:
      "tool_calls_loop env (tool_calls m)
         (messages st @ [AssistantMessage m],
          printed st @ [PrintIteration (iteration st + 1), PrintThought])
       = (((messages st @ [AssistantMessage m]) @ results, out'), None)"
      by blast
    let ?st' = "st\<lparr>messages := (messages st @ [AssistantMessage m]) @ results,
                    iteration := iteration st + 1, model_calls := model_calls st + 1,
                    printed := out'\<rparr>"
    have step: "agent_loop env N st = agent_loop env N ?st'"
      using True m nonempty loop by (rule agent_loop_tools)
    have ih: "iteration (agent_loop env N ?st') = N \<and>
     model_calls (agent_loop env N ?st') = model_calls ?st' + nat (N - iteration ?st') \<and>
     list_ex is_final_answer (printed (agent_loop env N ?st')) = list_ex is_final_answer (printed ?st') \<and>
     list_ex is_error (printed (agent_loop env N ?st')) = list_ex is_error (printed ?st') \<and>
     list_ex is_reached_max (printed (agent_loop env N ?st')) = list_ex is_reached_max (printed ?st')"
      using "1.IH" [OF True refl refl m refl nonempty] loop "1.prems"(1) True by simp
    from tool_calls_loop_events [OF loop]
    have quiet: "list_ex is_final_answer out' = list_ex is_final_answer (printed st)"
      "list_ex is_error out' = list_ex is_error (printed st)"
      "list_ex is_reached_max out' = list_ex is_reached_max (printed st)"
      by simp_all
    from ih quiet True show ?thesis unfolding step by (simp add: nat_diff_distrib')
  qed
qed

lemma returns_lookup_call: "returns (sample_env model) lookup_call"
  by (simp add: returns_def execute_tool_call_def sample_env_def lookup_call_def
      sample_json_loads_def sqrt_arguments_def query_arguments_def TOOL_FUNCTIONS_def)

lemma returns_search_call: "returns (sample_env model) search_call"
  by (simp add: returns_def execute_tool_call_def sample_env_def search_call_def
      sample_json_loads_def sqrt_arguments_def query_arguments_def TOOL_FUNCTIONS_def
      call_with_def search_knowledge_base_def unexpected_keyword_def dq_def)

subsection \<open>The iteration ceiling\<close>

text \<open>
  Claim C1 fails when a requested tool call raises. The model requests \<open>calculator\<close>
  with \<open>operation\<close> and \<open>a\<close> on every turn and never answers; the ceiling is 3. The call
  raises in the first round, \<open>execute_tool_call\<close> does not catch it, and the loop breaks:
  the run ends after one model call, with an error line and without the ceiling warning,
  where the claim has three model calls and the ceiling reported.
\<close>

theorem raising_tool_call_ends_the_run_before_the_ceiling:
  "run_agent (sample_env (requests [sqrt_call])) ''What is the square root of 16?'' 3 =
     \<lparr>messages = [SystemMessage system_prompt, UserMessage ''What is the square root of 16?'',
                  AssistantMessage \<lparr>msg_content = None, tool_calls = [sqrt_call]\<rparr>],
      iteration = 1, model_calls = 1,
      printed = [PrintTask ''What is the square root of 16?'', PrintIteration 1, PrintThought,
                 PrintCalling ''calculator'',
                 PrintError (''calculator() missing 1 required positional argument: ''
                             @ quoted ''b'')]\<rparr> \<and>
   model_calls (run_agent (sample_env (requests [sqrt_call])) ''What is the square root of 16?'' 3) = 1 \<and>
   \<not> ceiling_reached (run_agent (sample_env (requests [sqrt_call])) ''What is the square root of 16?'' 3) \<and>
   failed (run_agent (sample_env (requests [sqrt_call])) ''What is the square root of 16?'' 3)"
  by code_simp

text \<open>
  What holds of the loop whatever the model and the tools do: a run with ceiling \<open>N\<close>
  calls the model at most \<open>N\<close> times, and not at all for \<open>N \<le> 0\<close>, where a run with a
  configured key prints only the ceiling warning. Where every requested tool call
  returns, a model that always requests tools is called exactly \<open>N\<close> times and the run
  ends with the ceiling warning alone.
\<close>

lemma iteration_ceiling_bounds_model_calls:
  "int (model_calls (run_agent (env :: 'f agent_env) user_query N)) \<le> max 0 N \<and>
   (check_api_key env \<and> N \<le> 0 \<longrightarrow>
      model_calls (run_agent env user_query N) = 0 \<and>
      printed (run_agent env user_query N) = [PrintTask user_query, PrintReachedMax N]) \<and>
   (check_api_key env \<and> 0 \<le> N \<and>
    (\<forall>ms. \<exists>m. create env ms = Inr m \<and> tool_calls m \<noteq> [] \<and>
            (\<forall>tc \<in> set (tool_calls m). returns env tc)) \<longrightarrow>
      model_calls (run_agent env user_query N) = nat N \<and>
      ceiling_reached (run_agent env user_query N) \<and>
      \<not> answered (run_agent env user_query N) \<and>
      \<not> failed (run_agent env user_query N))"
proof (intro conjI impI)
  let ?st0 = "\<lparr>messages = [SystemMessage system_prompt, UserMessage user_query],
               iteration = 0, model_calls = 0, printed = [PrintTask user_query]\<rparr>
              :: 'f pydict agent_state"
  have "int (model_calls (agent_loop env N ?st0)) \<le> int (model_calls ?st0) + max 0 (N - iteration ?st0)"
    by (rule model_calls_agent_loop)
  then show "int (model_calls (run_agent env user_query N)) \<le> max 0 N"
    by (simp add: run_agent_def Let_def)
  {
    assume "check_api_key env \<and> N \<le> 0"
    then have key: "check_api_key env" and "\<not> iteration ?st0 < N" by simp_all
    then have stop: "agent_loop env N ?st0 = ?st0" by (simp add: agent_loop_stop)
    from key \<open>check_api_key env \<and> N \<le> 0\<close>
    show "model_calls (run_agent env user_query N) = 0"
      and "printed (run_agent env user_query N) = [PrintTask user_query, PrintReachedMax N]"
      by (simp_all add: run_agent_def stop)
  }
  {
    assume h: "check_api_key env \<and> 0 \<le> N \<and>
      (\<forall>ms. \<exists>m. create env ms = Inr m \<and> tool_calls m \<noteq> [] \<and>
              (\<forall>tc \<in> set (tool_calls m). returns env tc))"
    then have key: "check_api_key env" and le: "iteration ?st0 \<le> N"
      and always: "\<forall>ms. \<exists>m. create env ms = Inr m \<and> tool_calls m \<noteq> [] \<and>
              (\<forall>tc \<in> set (tool_calls m). returns env tc)"
      by simp_all
    note ex = agent_loop_exhausts [OF always le]
    from ex key show "model_calls (run_agent env user_query N) = nat N"
      by (simp add: run_agent_def Let_def)
    from ex key show "ceiling_reached (run_agent env user_query N)"
      by (simp add: run_agent_def Let_def ceiling_reached_def)
    from ex key show "\<not> answered (run_agent env user_query N)"
      by (simp add: run_agent_def Let_def answered_def)
    from ex key show "\<not> failed (run_agent env user_query N)"
      by (simp add: run_agent_def Let_def failed_def)
  }
qed

text \<open>
  A model that requests a search of the knowledge base on every turn: three model calls
  for the ceiling 3, none for the ceiling 0.
\<close>

lemma iteration_ceiling_at_search:
  "model_calls (run_agent (sample_env (requests [search_call])) ''What is 15 multiplied by 23?'' 3) = 3 \<and>
   ceiling_reached (run_agent (sample_env (requests [search_call])) ''What is 15 multiplied by 23?'' 3) \<and>
   \<not> answered (run_agent (sample_env (requests [search_call])) ''What is 15 multiplied by 23?'' 3) \<and>
   \<not> failed (run_agent (sample_env (requests [search_call])) ''What is 15 multiplied by 23?'' 3) \<and>
   model_calls (run_agent (sample_env (requests [search_call])) ''What is 15 multiplied by 23?'' 0) = 0 \<and>
   printed (run_agent (sample_env (requests [search_call])) ''What is 15 multiplied by 23?'' 0)
     = [PrintTask ''What is 15 multiplied by 23?'', PrintReachedMax 0]"
proof -
  let ?env = "sample_env (requests [search_call])"
  have key: "check_api_key ?env" by (simp add: sample_env_def)
  have always: "\<forall>ms. \<exists>m. create ?env ms = Inr m \<and> tool_calls m \<noteq> [] \<and>
                  (\<forall>tc \<in> set (tool_calls m). returns ?env tc)"
    by (simp add: sample_env_def requests_def returns_search_call [unfolded sample_env_def])
  from iteration_ceiling_bounds_model_calls [of ?env "''What is 15 multiplied by 23?''" 3] key always
  have three: "model_calls (run_agent ?env ''What is 15 multiplied by 23?'' 3) = 3 \<and>
   ceiling_reached (run_agent ?env ''What is 15 multiplied by 23?'' 3) \<and>
   \<not> answered (run_agent ?env ''What is 15 multiplied by 23?'' 3) \<and>
   \<not> failed (run_agent ?env ''What is 15 multiplied by 23?'' 3)"
    by simp
  from iteration_ceiling_bounds_model_calls [of ?env "''What is 15 multiplied by 23?''" 0] key
  have zero: "model_calls (run_agent ?env ''What is 15 multiplied by 23?'' 0) = 0 \<and>
   printed (run_agent ?env ''What is 15 multiplied by 23?'' 0)
     = [PrintTask ''What is 15 multiplied by 23?'', PrintReachedMax 0]"
    by simp
  from three zero show ?thesis by simp
qed

subsection \<open>A tool function that raises\<close>

text \<open>
  Claim C2 fails in the agent. The advertised schema of \<open>calculator\<close> requires only
  \<open>operation\<close> and \<open>a\<close>, while the function has no default for \<open>b\<close>. When the model
  requests the square root of 16 with these two arguments, the call raises TypeError;
  \<open>execute_tool_call\<close> does not catch it, the \<open>except\<close> of the loop prints it and
  breaks: with a ceiling of 5 the run ends in the first round, and no tool message is
  appended for the request.
\<close>

theorem handler_fault_ends_the_agent_loop:
  "fn_required (agent_tools ! 0) = [''operation'', ''a''] \<and>
   json_loads (sample_env (requests [sqrt_call])) (function_arguments sqrt_call)
     = Inr (JObject [(''operation'', PStr ''sqrt''), (''a'', PInt 16)]) \<and>
   run_agent (sample_env (requests [sqrt_call])) ''What is the square root of 16?'' 5 =
     \<lparr>messages = [SystemMessage system_prompt, UserMessage ''What is the square root of 16?'',
                  AssistantMessage \<lparr>msg_content = None, tool_calls = [sqrt_call]\<rparr>],
      iteration = 1, model_calls = 1,
      printed = [PrintTask ''What is the square root of 16?'', PrintIteration 1, PrintThought,
                 PrintCalling ''calculator'',
                 PrintError (''calculator() missing 1 required positional argument: ''
                             @ quoted ''b'')]\<rparr>"
  by code_simp

text \<open>
  The server's dispatcher has the catch that the agent's lacks: whatever the handler of
  the first matching tool raises comes back from \<open>call_tool\<close> as the error result.
\<close>

lemma call_tool_catches_handler_exception:
  "tools self = pre @ t # post \<Longrightarrow> tool_name t = nm \<Longrightarrow> nm \<notin> set (map tool_name pre) \<Longrightarrow>
   handler t arguments = Inl e \<Longrightarrow> call_tool ops self nm arguments = ToolError e"
  by (simp add: call_tool_def call_tool_loop_first)

lemma call_tool_echo_without_message:
  "call_tool whole_floats (main_server whole_floats sample_now) ''echo'' []
     = ToolError (''echo_tool() missing 1 required positional argument: '' @ quoted ''message'')"
  by (simp add: call_tool_echo) code_simp

subsection \<open>How a run reports its end\<close>

text \<open>
  Claim C6 fails when the answer arrives in the last permitted round. With a ceiling of
  1 and a model that answers at once, the loop breaks with the counter at 1, the test
  after the loop holds, and the run prints the final answer and then the ceiling
  warning: it reports both.
\<close>

theorem answer_on_last_iteration_also_reports_ceiling:
  "run_agent (sample_env (answers ''345'')) ''What is 15 multiplied by 23?'' 1 =
     \<lparr>messages = [SystemMessage system_prompt, UserMessage ''What is 15 multiplied by 23?'',
                  AssistantMessage \<lparr>msg_content = Some ''345'', tool_calls = []\<rparr>],
      iteration = 1, model_calls = 1,
      printed = [PrintTask ''What is 15 multiplied by 23?'', PrintIteration 1,
                 PrintFinalAnswer (Some ''345''), PrintReachedMax 1]\<rparr> \<and>
   answered (run_agent (sample_env (answers ''345'')) ''What is 15 multiplied by 23?'' 1) \<and>
   ceiling_reached (run_agent (sample_env (answers ''345'')) ''What is 15 multiplied by 23?'' 1)"
  by code_simp

subsection \<open>The order of tool results\<close>

text \<open>
  Claim C7 fails when a call of the turn raises. The model names a search, then the
  calculator call without \<open>b\<close>, then \<open>lookup\<close>. The search is dispatched and its tool
  message appended; the calculator call raises, \<open>execute_tool_call\<close> does not catch it,
  and the loop breaks: no tool message is appended for the calculator call, and
  \<open>lookup\<close> is never dispatched, where the claim has three tool messages in the order of
  the requests.
\<close>

theorem raising_call_ends_the_turn:
  "run_agent (sample_env (requests [search_call, sqrt_call, lookup_call])) ''What is an AI agent?'' 3 =
     \<lparr>messages =
        [SystemMessage system_prompt, UserMessage ''What is an AI agent?'',
         AssistantMessage \<lparr>msg_content = None, tool_calls = [search_call, sqrt_call, lookup_call]\<rparr>,
         ToolMessage ''call_2'' ''search_knowledge_base''
           (Dumps [(''found'', PBool True), (''query'', PStr ''agent''),
                   (''answer'', PStr ''AI agents are autonomous systems that can perceive, reason, and act.'')])],
      iteration = 1, model_calls = 1,
      printed =
        [PrintTask ''What is an AI agent?'', PrintIteration 1, PrintThought,
         PrintCalling ''search_knowledge_base'', PrintResult ''search_knowledge_base'',
         PrintCalling ''calculator'',
         PrintError (''calculator() missing 1 required positional argument: '' @ quoted ''b'')]\<rparr>"
  by code_simp

text \<open>
  What holds of every turn: the calls are dispatched in the order given, up to and with
  the first that raises. The lines printed are those of these calls, in that order, and
  the tool messages appended are those of the calls before the first that raises, in
  that order, each with the id and the name of its call. The turn ends with the exception
  of the first call that raises, if there is one.
\<close>

lemma tool_calls_loop_in_order:
  "tool_calls_loop env tcs (ms, out) =
     ((ms @ concat (map (tool_result_message env) (takeWhile (returns env) tcs)),
       out @ concat (map (tool_call_lines env)
                      (take (Suc (length (takeWhile (returns env) tcs))) tcs))),
      (case dropWhile (returns env) tcs of
         [] \<Rightarrow> None
       | tc # rest \<Rightarrow> (case snd (execute_tool_call env tc) of Inl e \<Rightarrow> Some e | Inr r \<Rightarrow> None)))"
proof (induction tcs arbitrary: ms out)
  case Nil
  show ?case by simp
next
  case (Cons tc tcs)
  obtain evs r where ex: "execute_tool_call env tc = (evs, r)"
    by (cases "execute_tool_call env tc")
  show ?case
  proof (cases r)
    case (Inl e)
    with ex show ?thesis by (simp add: returns_def tool_call_lines_def)
  next
    case (Inr result)
    with ex have "returns env tc" by (simp add: returns_def)
    with ex Inr Cons.IH show ?thesis
      by (simp add: tool_result_message_def tool_call_lines_def)
  qed
qed

end
